theory Spec2Isabelle
  imports Complex_Main
begin

section \<open>Conventions\<close>

text \<open>
  The development embeds three modules of the portfolio site: the background texture
  cross-fade controller (\<^verbatim>\<open>js/background.js\<close> with the fragment shader of
  \<^verbatim>\<open>js/shaders.js\<close>), the blob cursor (\<^verbatim>\<open>js/blob-cursor.js\<close>) and the loader scene
  (\<^verbatim>\<open>js/loader-scene.js\<close>).

  JavaScript numbers are IEEE doubles; they are modelled by \<^typ>\<open>real\<close>, so every
  statement below is about the exact arithmetic the code writes down, not about rounding.
  A JavaScript value that may be \<^verbatim>\<open>null\<close> or \<^verbatim>\<open>undefined\<close> is an \<^typ>\<open>'a option\<close>
  with \<^term>\<open>None\<close> for both (the code only ever tests such values for truthiness).
  An uncaught exception is the \<^term>\<open>Inl\<close> branch of a sum.
\<close>

datatype js_error = TypeError | NotFoundError

section \<open>Background: data model\<close>

text \<open>
  Textures are objects compared by identity (\<^verbatim>\<open>===\<close>). A texture decoded from an image is
  identified by the object the loader handed out; \<^verbatim>\<open>new THREE.Texture()\<close> is the blank
  texture.
\<close>

datatype texture = Image string | BlankTexture

record uniforms =
  uTex1 :: "texture option"
  uTex2 :: "texture option"
  uMix :: real
  uTime :: real
  uResolution :: "real \<times> real"

record background =
  textures :: "string \<rightharpoonup> texture"
  targetTexture :: "texture option"
  currentSourceTexture :: "texture option"
  transitionProgress :: real
  isTransitioning :: bool
  time :: real
  material :: "uniforms option"
  rendererSize :: "real \<times> real"

text \<open>The \<^verbatim>\<open>CONFIG\<close> object of \<^verbatim>\<open>background.js\<close>.\<close>

definition transitionSpeed :: real where
  "transitionSpeed = 0.01"

definition timeStep :: real where
  "timeStep = 0.01"

definition url_default :: string where
  "url_default = ''images/backgrounds/starry-night.jpg''"

definition url_orange :: string where
  "url_orange = ''images/backgrounds/orangeSN.png''"

definition url_graduation :: string where
  "url_graduation = ''images/VG/graduationVG.png''"

section \<open>Background: operations\<close>

text \<open>
  The constructor up to the point where \<^verbatim>\<open>init\<close> has created the renderer with the
  window's size and started the texture loads; nothing is loaded yet and there is no material.
\<close>

definition new_Background :: "real \<Rightarrow> real \<Rightarrow> background" where
  "new_Background innerWidth innerHeight =
     \<lparr> textures = Map.empty,
       targetTexture = None,
       currentSourceTexture = None,
       transitionProgress = 0,
       isTransitioning = False,
       time = 0,
       material = None,
       rendererSize = (innerWidth, innerHeight) \<rparr>"

text \<open>
  \<^verbatim>\<open>THREE.TextureLoader.load(url, onLoad, undefined, onError)\<close> ends by calling one of its
  two callbacks. A promise that has settled is either resolved with a value or rejected.
\<close>

datatype load_outcome = OnLoad texture | OnError

type_synonym loader = "string \<Rightarrow> load_outcome"

datatype 'a settled = Resolved 'a | Rejected string

text \<open>\<^verbatim>\<open>loadTex\<close>: both callbacks call \<^verbatim>\<open>resolve\<close>; the error callback resolves with null.\<close>

definition loadTex :: "loader \<Rightarrow> string \<Rightarrow> texture option settled" where
  "loadTex ld url =
     (case ld url of
        OnLoad tex \<Rightarrow> Resolved (Some tex)
      | OnError \<Rightarrow> Resolved None)"

text \<open>\<^verbatim>\<open>Promise.all\<close>: rejected with the first rejection, else resolved with all values.\<close>

fun promise_all :: "'a settled list \<Rightarrow> 'a list settled" where
  "promise_all [] = Resolved []"
| "promise_all (Rejected e # ps) = Rejected e"
| "promise_all (Resolved v # ps) =
     (case promise_all ps of
        Rejected e \<Rightarrow> Rejected e
      | Resolved vs \<Rightarrow> Resolved (v # vs))"

text \<open>Array destructuring: a missing element is \<^verbatim>\<open>undefined\<close>.\<close>

definition element_at :: "'a option list \<Rightarrow> nat \<Rightarrow> 'a option" where
  "element_at xs i = (if i < length xs then xs ! i else None)"

text \<open>The operator \<^verbatim>\<open>a || b\<close> on values that are an object or null.\<close>

definition or_else :: "'a option \<Rightarrow> 'a option \<Rightarrow> 'a option" where
  "or_else a b = (case a of Some v \<Rightarrow> Some v | None \<Rightarrow> b)"

text \<open>
  \<^verbatim>\<open>loadTextures\<close>. The \<^verbatim>\<open>await\<close> rethrows a rejection of \<^verbatim>\<open>Promise.all\<close>, which then
  rejects the promise of \<^verbatim>\<open>loadTextures\<close> itself; nothing in \<^verbatim>\<open>init\<close> catches that.
\<close>

definition loadTextures :: "loader \<Rightarrow> background \<Rightarrow> background settled" where
  "loadTextures ld s =
     (case promise_all [loadTex ld url_default, loadTex ld url_orange, loadTex ld url_graduation] of
        Rejected e \<Rightarrow> Rejected e
      | Resolved texs \<Rightarrow>
          (let texDefault = element_at texs 0;
               texOrange = element_at texs 1;
               texGrad = element_at texs 2;
               t1 = (textures s)(''default'' := or_else texDefault (Some BlankTexture));
               t2 = t1(''orange'' := or_else texOrange (t1 ''default''));
               t3 = t2(''graduation'' := or_else texGrad (t2 ''default''))
           in Resolved (s\<lparr> textures := t3,
                            targetTexture := t3 ''default'',
                            currentSourceTexture := t3 ''default'' \<rparr>)))"

definition setupMaterial :: "real \<Rightarrow> real \<Rightarrow> background \<Rightarrow> background" where
  "setupMaterial innerWidth innerHeight s =
     s\<lparr> material := Some \<lparr> uTex1 = textures s ''default'',
                           uTex2 = textures s ''default'',
                           uMix = 0,
                           uTime = 0,
                           uResolution = (innerWidth, innerHeight) \<rparr> \<rparr>"

text \<open>
  \<^verbatim>\<open>setTarget\<close>. Reading \<^verbatim>\<open>this.material.uniforms\<close> while the material is still null
  throws a TypeError.
\<close>

definition setTarget :: "string \<Rightarrow> background \<Rightarrow> js_error + background" where
  "setTarget textureName s =
     (case textures s textureName of
        None \<Rightarrow> Inr s
      | Some newTex \<Rightarrow>
          if targetTexture s = Some newTex then Inr s
          else
            (case material s of
               None \<Rightarrow> Inl TypeError
             | Some m \<Rightarrow>
                 Inr (s\<lparr> currentSourceTexture := targetTexture s,
                         targetTexture := Some newTex,
                         material := Some (m\<lparr> uTex1 := targetTexture s,
                                               uTex2 := Some newTex,
                                               uMix := 0 \<rparr>),
                         transitionProgress := 0,
                         isTransitioning := True \<rparr>)))"

text \<open>
  One call of \<^verbatim>\<open>animate\<close>: the body between scheduling the next frame and the draw call.
  The draw call reads the uniforms only (see \<open>fragColor\<close> below).
\<close>

definition animate :: "background \<Rightarrow> js_error + background" where
  "animate s =
     (case material s of
        None \<Rightarrow> Inl TypeError
      | Some m \<Rightarrow>
          (let t = time s + timeStep;
               m1 = m\<lparr> uTime := t \<rparr>
           in if isTransitioning s then
                (let p = transitionProgress s + transitionSpeed;
                     p' = (if p \<ge> 1 then 1 else p);
                     tr = (if p \<ge> 1 then False else True)
                 in Inr (s\<lparr> time := t,
                            transitionProgress := p',
                            isTransitioning := tr,
                            material := Some (m1\<lparr> uMix := p' \<rparr>) \<rparr>))
              else Inr (s\<lparr> time := t, material := Some m1 \<rparr>)))"

definition handleResize :: "real \<Rightarrow> real \<Rightarrow> background \<Rightarrow> background" where
  "handleResize innerWidth innerHeight s =
     s\<lparr> rendererSize := (innerWidth, innerHeight),
        material := (case material s of
                       None \<Rightarrow> None
                     | Some m \<Rightarrow> Some (m\<lparr> uResolution := (innerWidth, innerHeight) \<rparr>)) \<rparr>"

section \<open>Background: the cross-fade of the fragment shader\<close>

datatype vec4 = Vec4 real real real real

text \<open>GLSL \<^verbatim>\<open>mix(x, y, a)\<close> is \<^verbatim>\<open>x * (1 - a) + y * a\<close>, componentwise on vectors.\<close>

definition mix :: "real \<Rightarrow> real \<Rightarrow> real \<Rightarrow> real" where
  "mix x y a = x * (1 - a) + y * a"

fun mix4 :: "vec4 \<Rightarrow> vec4 \<Rightarrow> real \<Rightarrow> vec4" where
  "mix4 (Vec4 r1 g1 b1 a1) (Vec4 r2 g2 b2 a2) m =
     Vec4 (mix r1 r2 m) (mix g1 g2 m) (mix b1 b2 m) (mix a1 a2 m)"

text \<open>
  The last lines of \<^verbatim>\<open>main\<close> in the fragment shader, for one pixel. The sampling function
  \<open>texture2D\<close>, the distorted coordinate \<open>coord\<close> (computed from \<^verbatim>\<open>vUv\<close>, \<^verbatim>\<open>uTime\<close> and
  \<^verbatim>\<open>uResolution\<close>) and the vignette factor do not depend on \<^verbatim>\<open>uTex1\<close>, \<^verbatim>\<open>uTex2\<close> or
  \<^verbatim>\<open>uMix\<close>; they are parameters.
\<close>

fun scale_rgb :: "vec4 \<Rightarrow> real \<Rightarrow> vec4" where
  "scale_rgb (Vec4 r g b a) k = Vec4 (r * k) (g * k) (b * k) a"

definition fragColor ::
  "(texture option \<Rightarrow> real \<times> real \<Rightarrow> vec4) \<Rightarrow> real \<times> real \<Rightarrow> real \<Rightarrow> uniforms \<Rightarrow> vec4" where
  "fragColor texture2D coord vignette u =
     (let c1 = texture2D (uTex1 u) coord;
          c2 = texture2D (uTex2 u) coord;
          color = mix4 c1 c2 (uMix u)
      in scale_rgb color vignette)"

section \<open>Background: reachable states\<close>

text \<open>
  The states an instance goes through: the constructor; once, the resolution of
  \<^verbatim>\<open>loadTextures\<close> followed by \<^verbatim>\<open>setupMaterial\<close>; then any interleaving of \<^verbatim>\<open>setTarget\<close>,
  \<^verbatim>\<open>animate\<close> and \<^verbatim>\<open>handleResize\<close> calls that do not throw.
\<close>

inductive reachable :: "background \<Rightarrow> bool" where
  constructed: "reachable (new_Background w h)"
| loaded: "reachable s \<Longrightarrow> material s = None \<Longrightarrow> loadTextures ld s = Resolved s'
           \<Longrightarrow> reachable (setupMaterial w h s')"
| retargeted: "reachable s \<Longrightarrow> setTarget textureName s = Inr s' \<Longrightarrow> reachable s'"
| ticked: "reachable s \<Longrightarrow> animate s = Inr s' \<Longrightarrow> reachable s'"
| resized: "reachable s \<Longrightarrow> reachable (handleResize w h s)"

section \<open>The scheduling primitives of the page\<close>

text \<open>
  \<^verbatim>\<open>requestAnimationFrame\<close> and \<^verbatim>\<open>setTimeout\<close> hand out a fresh non-zero handle and keep
  the callback pending under it; \<^verbatim>\<open>cancelAnimationFrame\<close> and \<^verbatim>\<open>clearTimeout\<close> drop the
  callback pending under a handle and do nothing for any other argument.
\<close>

record scheduler =
  frames :: "nat set"
  timeouts :: "nat set"
  nextHandle :: nat

definition requestAnimationFrame :: "scheduler \<Rightarrow> nat \<times> scheduler" where
  "requestAnimationFrame sc =
     (Suc (nextHandle sc),
      sc\<lparr> frames := insert (Suc (nextHandle sc)) (frames sc), nextHandle := Suc (nextHandle sc) \<rparr>)"

definition cancelAnimationFrame :: "nat \<Rightarrow> scheduler \<Rightarrow> scheduler" where
  "cancelAnimationFrame h sc = sc\<lparr> frames := frames sc - {h} \<rparr>"

definition setTimeout :: "scheduler \<Rightarrow> nat \<times> scheduler" where
  "setTimeout sc =
     (Suc (nextHandle sc),
      sc\<lparr> timeouts := insert (Suc (nextHandle sc)) (timeouts sc), nextHandle := Suc (nextHandle sc) \<rparr>)"

definition clearTimeout :: "nat \<Rightarrow> scheduler \<Rightarrow> scheduler" where
  "clearTimeout h sc = sc\<lparr> timeouts := timeouts sc - {h} \<rparr>"

text \<open>Truthiness of a handle variable: null, undefined and 0 are falsy.\<close>

fun truthy :: "nat option \<Rightarrow> bool" where
  "truthy None = False"
| "truthy (Some h) = (h \<noteq> 0)"

text \<open>
  The guarded calls \<^verbatim>\<open>if (id) cancelAnimationFrame(id)\<close> and
  \<^verbatim>\<open>if (timer) clearTimeout(timer)\<close>.
\<close>

definition cancel_if_set :: "nat option \<Rightarrow> scheduler \<Rightarrow> scheduler" where
  "cancel_if_set v sc =
     (case v of
        None \<Rightarrow> sc
      | Some h \<Rightarrow> if h \<noteq> 0 then cancelAnimationFrame h sc else sc)"

definition clear_if_set :: "nat option \<Rightarrow> scheduler \<Rightarrow> scheduler" where
  "clear_if_set v sc =
     (case v of
        None \<Rightarrow> sc
      | Some h \<Rightarrow> if h \<noteq> 0 then clearTimeout h sc else sc)"

section \<open>Blob cursor: data model\<close>

text \<open>
  A blob is the object pushed by \<^verbatim>\<open>createBlobs\<close>; its \<^verbatim>\<open>el\<close> is the SVG circle with the
  attributes and the style the code writes. Positions \<^verbatim>\<open>{x, y}\<close> are pairs; the code copies
  them with a spread, so no two fields share one object. The cursor dot, the CSS classes and
  the vibration calls are outputs that nothing in the class reads back; they are left out.
\<close>

record svg_circle =
  el_id :: nat
  attr_r :: real
  attr_cx :: "real option"
  attr_cy :: "real option"
  style_opacity :: "real option"

record blob =
  blob_el :: svg_circle
  blob_x :: real
  blob_y :: real
  blob_radius :: real

record blob_config =
  cfg_count :: nat
  cfg_size :: real
  lagPrimary :: real
  lagSecondary :: real

definition CONFIG_desktop :: blob_config where
  "CONFIG_desktop = \<lparr> cfg_count = 12, cfg_size = 180, lagPrimary = 0.25, lagSecondary = 0.5 \<rparr>"

definition CONFIG_mobile :: blob_config where
  "CONFIG_mobile = \<lparr> cfg_count = 5, cfg_size = 110, lagPrimary = 0.5, lagSecondary = 0.7 \<rparr>"

definition initialPosition :: real where
  "initialPosition = - 500"

definition velocityMultiplier :: real where
  "velocityMultiplier = 1.2"

text \<open>
  The fields of the class, then the part of the page the object acts on: the scheduler and
  the circles that are children of the blob group.
\<close>

record blobCursor =
  blobs :: "blob list"
  isTouch :: bool
  config :: blob_config
  mouse :: "real \<times> real"
  target :: "real \<times> real"
  velocity :: "real \<times> real"
  lastPosition :: "real \<times> real"
  isTouching :: bool
  touchHoldTimer :: "nat option"
  fadeOutTimer :: "nat option"
  isActive :: bool
  rafId :: "nat option"
  lastTime :: real
  sched :: scheduler
  blobGroup :: "nat set"

section \<open>Blob cursor: operations\<close>

definition setBlobOpacity :: "real \<Rightarrow> blobCursor \<Rightarrow> blobCursor" where
  "setBlobOpacity opacity c =
     c\<lparr> blobs := map (\<lambda>b. b\<lparr> blob_el := (blob_el b)\<lparr> style_opacity := Some opacity \<rparr> \<rparr>) (blobs c) \<rparr>"

text \<open>The circle and the blob made by iteration \<open>i\<close> of the loop of \<^verbatim>\<open>createBlobs\<close>.\<close>

definition new_blob :: "blob_config \<Rightarrow> nat \<Rightarrow> blob" where
  "new_blob cfg i =
     (let radius = cfg_size cfg * (1 - real i / (real (cfg_count cfg) + 2))
      in \<lparr> blob_el = \<lparr> el_id = i, attr_r = radius, attr_cx = None, attr_cy = None,
                       style_opacity = None \<rparr>,
           blob_x = initialPosition,
           blob_y = initialPosition,
           blob_radius = radius \<rparr>)"

definition createBlobs :: "blobCursor \<Rightarrow> blobCursor" where
  "createBlobs c =
     (let c1 = c\<lparr> blobs := blobs c @ map (new_blob (config c)) [0 ..< cfg_count (config c)],
                  blobGroup := blobGroup c \<union> {0 ..< cfg_count (config c)} \<rparr>
      in if isTouch c1 then setBlobOpacity 0 c1 else c1)"

definition updatePosition :: "real \<Rightarrow> real \<Rightarrow> blobCursor \<Rightarrow> blobCursor" where
  "updatePosition x y c =
     (let v = ((x - fst (lastPosition c)) * velocityMultiplier,
               (y - snd (lastPosition c)) * velocityMultiplier)
      in c\<lparr> velocity := v, lastPosition := target c, target := (x, y) \<rparr>)"

text \<open>\<^verbatim>\<open>handleMouseMove\<close>, without the cursor dot.\<close>

definition handleMouseMove :: "real \<Rightarrow> real \<Rightarrow> blobCursor \<Rightarrow> blobCursor" where
  "handleMouseMove clientX clientY c = updatePosition clientX clientY c"

text \<open>The normalised frame time of \<^verbatim>\<open>animate\<close>.\<close>

definition deltaTime :: "real \<Rightarrow> real \<Rightarrow> real" where
  "deltaTime currentTime lastT = min ((currentTime - lastT) / 16.67) 2"

text \<open>
  The \<^verbatim>\<open>forEach\<close> of \<^verbatim>\<open>animate\<close>: \<open>index\<close> counts the blobs done, \<open>tgt\<close> is
  \<^verbatim>\<open>(targetX, targetY)\<close>, \<open>grow\<close> is \<^verbatim>\<open>this.isActive && this.isTouching\<close>.
\<close>

fun follow ::
  "blob_config \<Rightarrow> real \<Rightarrow> bool \<Rightarrow> real \<times> real \<Rightarrow> nat \<Rightarrow> real \<times> real \<Rightarrow> blob list \<Rightarrow> blob list" where
  "follow cfg dt grow vel index tgt [] = []"
| "follow cfg dt grow vel index tgt (b # bs) =
     (let lag = (if index = 0 then lagPrimary cfg else lagSecondary cfg);
          adjustedLag = lag * dt;
          x' = blob_x b + (fst tgt - blob_x b) * adjustedLag;
          y' = blob_y b + (snd tgt - blob_y b) * adjustedLag;
          speed = sqrt ((fst vel)\<^sup>2 + (snd vel)\<^sup>2);
          sizeMultiplier = 1 + min (speed * 0.002) 0.3;
          r' = (if grow then blob_radius b * sizeMultiplier else blob_radius b);
          b' = b\<lparr> blob_x := x', blob_y := y',
                  blob_el := (blob_el b)\<lparr> attr_cx := Some x', attr_cy := Some y', attr_r := r' \<rparr> \<rparr>
      in b' # follow cfg dt grow vel (Suc index) (x', y') bs)"

text \<open>\<^verbatim>\<open>animate\<close>; \<open>currentTime\<close> is what \<^verbatim>\<open>performance.now()\<close> returns.\<close>

definition blob_animate :: "real \<Rightarrow> blobCursor \<Rightarrow> blobCursor" where
  "blob_animate currentTime c =
     (let dt = deltaTime currentTime (lastTime c);
          m = (fst (mouse c) + (fst (target c) - fst (mouse c)) * lagPrimary (config c) * dt,
               snd (mouse c) + (snd (target c) - snd (mouse c)) * lagPrimary (config c) * dt);
          bs = follow (config c) dt (isActive c \<and> isTouching c) (velocity c) 0 m (blobs c);
          v = (fst (velocity c) * 0.9, snd (velocity c) * 0.9);
          (h, sc) = requestAnimationFrame (sched c)
      in c\<lparr> lastTime := currentTime, mouse := m, blobs := bs, velocity := v,
            rafId := Some h, sched := sc \<rparr>)"

text \<open>
  The constructor with \<^verbatim>\<open>init\<close>: the fields, \<^verbatim>\<open>createBlobs\<close>, then the first
  \<^verbatim>\<open>animate\<close>. \<open>t0\<close> and \<open>t1\<close> are the two readings of \<^verbatim>\<open>performance.now()\<close>.
\<close>

definition new_BlobCursor :: "bool \<Rightarrow> real \<Rightarrow> real \<Rightarrow> real \<Rightarrow> real \<Rightarrow> scheduler \<Rightarrow> blobCursor" where
  "new_BlobCursor touch innerWidth innerHeight t0 t1 sc =
     blob_animate t1 (createBlobs
       \<lparr> blobs = [],
         isTouch = touch,
         config = (if touch then CONFIG_mobile else CONFIG_desktop),
         mouse = (innerWidth / 2, innerHeight / 2),
         target = (innerWidth / 2, innerHeight / 2),
         velocity = (0, 0),
         lastPosition = (innerWidth / 2, innerHeight / 2),
         isTouching = False,
         touchHoldTimer = None,
         fadeOutTimer = None,
         isActive = (\<not> touch),
         rafId = None,
         lastTime = t0,
         sched = sc,
         blobGroup = {} \<rparr>)"

text \<open>\<^verbatim>\<open>handleTouchStart\<close>; \<open>touches\<close> is \<^verbatim>\<open>e.touches\<close> as (clientX, clientY) pairs.\<close>

definition handleTouchStart :: "(real \<times> real) list \<Rightarrow> blobCursor \<Rightarrow> blobCursor" where
  "handleTouchStart touches c =
     (case touches of
        [] \<Rightarrow> c
      | touch # rest \<Rightarrow>
          (let c1 = c\<lparr> isTouching := True \<rparr>;
               c2 = (case fadeOutTimer c1 of
                       None \<Rightarrow> c1
                     | Some h \<Rightarrow>
                         if h \<noteq> 0
                         then c1\<lparr> sched := clearTimeout h (sched c1), fadeOutTimer := None \<rparr>
                         else c1);
               c3 = c2\<lparr> target := touch, mouse := touch \<rparr>;
               c4 = c3\<lparr> blobs := map (\<lambda>b. b\<lparr> blob_x := fst touch, blob_y := snd touch \<rparr>) (blobs c3) \<rparr>
           in setBlobOpacity 1 (c4\<lparr> isActive := True \<rparr>)))"

definition handleTouchMove :: "(real \<times> real) list \<Rightarrow> blobCursor \<Rightarrow> blobCursor" where
  "handleTouchMove touches c =
     (case touches of
        [] \<Rightarrow> c
      | touch # rest \<Rightarrow>
          if \<not> isTouching c then c
          else
            (let c1 = (if \<not> isActive c then setBlobOpacity 1 (c\<lparr> isActive := True \<rparr>) else c)
             in updatePosition (fst touch) (snd touch) c1))"

text \<open>\<^verbatim>\<open>handleTouchEnd\<close>, and the callback it leaves pending.\<close>

definition handleTouchEnd :: "blobCursor \<Rightarrow> blobCursor" where
  "handleTouchEnd c =
     (let (h, sc) = setTimeout (sched c)
      in c\<lparr> isTouching := False, fadeOutTimer := Some h, sched := sc \<rparr>)"

definition fadeOut_callback :: "blobCursor \<Rightarrow> blobCursor" where
  "fadeOut_callback c = setBlobOpacity 0 (c\<lparr> isActive := False \<rparr>)"

text \<open>The callback \<^verbatim>\<open>handleOrientationChange\<close> leaves pending.\<close>

definition orientation_callback :: "real \<Rightarrow> real \<Rightarrow> blobCursor \<Rightarrow> blobCursor" where
  "orientation_callback innerWidth innerHeight c =
     c\<lparr> mouse := (innerWidth / 2, innerHeight / 2), target := (innerWidth / 2, innerHeight / 2) \<rparr>"

definition handleVisibilityChange :: "bool \<Rightarrow> real \<Rightarrow> blobCursor \<Rightarrow> blobCursor" where
  "handleVisibilityChange hidden now c =
     (if hidden then
        (case rafId c of
           None \<Rightarrow> c
         | Some h \<Rightarrow>
             if h \<noteq> 0 then c\<lparr> sched := cancelAnimationFrame h (sched c), rafId := None \<rparr> else c)
      else
        (if \<not> truthy (rafId c) then blob_animate now (c\<lparr> lastTime := now \<rparr>) else c))"

definition showAt :: "real \<Rightarrow> real \<Rightarrow> blobCursor \<Rightarrow> blobCursor" where
  "showAt x y c = setBlobOpacity 1 (c\<lparr> target := (x, y), mouse := (x, y), isActive := True \<rparr>)"

definition hide :: "blobCursor \<Rightarrow> blobCursor" where
  "hide c = setBlobOpacity 0 (c\<lparr> isActive := False \<rparr>)"

definition destroy :: "blobCursor \<Rightarrow> blobCursor" where
  "destroy c =
     (let sc1 = cancel_if_set (rafId c) (sched c);
          sc2 = clear_if_set (touchHoldTimer c) sc1;
          sc3 = clear_if_set (fadeOutTimer c) sc2
      in c\<lparr> sched := sc3,
            blobGroup := blobGroup c - set (map (\<lambda>b. el_id (blob_el b)) (blobs c)),
            blobs := [] \<rparr>)"

text \<open>\<open>k\<close> ticks in a row with no input event between them, at the given clock readings.\<close>

fun blob_ticks :: "real list \<Rightarrow> blobCursor \<Rightarrow> blobCursor" where
  "blob_ticks [] c = c"
| "blob_ticks (t # ts) c = blob_ticks ts (blob_animate t c)"

section \<open>Loader scene: data model\<close>

text \<open>
  The module-level variables of \<^verbatim>\<open>loader-scene.js\<close>, then the part of the page and of the
  graphics library the module acts on. Every three.js object that holds GPU memory carries
  the number it was created under; \<open>disposed\<close> collects the objects whose \<^verbatim>\<open>dispose()\<close> has
  run. The canvas of a renderer is numbered like its renderer. Adding the same function as a
  \<^verbatim>\<open>resize\<close> listener twice registers it once, so the registration is a flag.
\<close>

record gl_renderer =
  rd_id :: nat
  rd_size :: "real \<times> real"
  rd_pixelRatio :: real

record loader_material =
  mat_id :: nat
  tDiffuse :: "nat option"
  mat_time :: real

record loader_mesh =
  geometry_id :: nat

record loaderScene =
  ls_scene :: "nat list option"
  ls_camera :: "unit option"
  ls_renderer :: "gl_renderer option"
  ls_material :: "loader_material option"
  ls_mesh :: "loader_mesh option"
  animationId :: "nat option"
  container :: bool
  ls_sched :: scheduler
  containerChildren :: "nat list"
  resizeListener :: bool
  nextObject :: nat
  disposed :: "nat set"

section \<open>Loader scene: operations\<close>

text \<open>The module just evaluated: every variable undefined, the container looked up.\<close>

definition loader_module :: "bool \<Rightarrow> scheduler \<Rightarrow> loaderScene" where
  "loader_module hasContainer sc =
     \<lparr> ls_scene = None, ls_camera = None, ls_renderer = None, ls_material = None,
       ls_mesh = None, animationId = None, container = hasContainer, ls_sched = sc,
       containerChildren = [], resizeListener = False, nextObject = 0, disposed = {} \<rparr>"

text \<open>\<^verbatim>\<open>initLoaderScene\<close> up to the start of the texture load.\<close>

definition initLoaderScene :: "real \<Rightarrow> real \<Rightarrow> real \<Rightarrow> loaderScene \<Rightarrow> loaderScene" where
  "initLoaderScene innerWidth innerHeight devicePixelRatio w =
     (if \<not> container w then w
      else
        (let isMobile = (innerWidth < 768);
             rd = \<lparr> rd_id = nextObject w,
                    rd_size = (innerWidth, innerHeight),
                    rd_pixelRatio = (if isMobile then 1 else min devicePixelRatio 2) \<rparr>
         in w\<lparr> ls_scene := Some [],
               ls_camera := Some (),
               ls_renderer := Some rd,
               containerChildren := containerChildren w @ [rd_id rd],
               resizeListener := True,
               nextObject := Suc (nextObject w) \<rparr>))"

text \<open>
  \<^verbatim>\<open>animate\<close> of the loader scene. \<^verbatim>\<open>renderer.render\<close> on a renderer that is null throws,
  after the next frame has been requested and the time advanced.
\<close>

definition loader_animate :: "loaderScene \<Rightarrow> js_error + loaderScene" where
  "loader_animate w =
     (let (h, sc) = requestAnimationFrame (ls_sched w);
          w1 = w\<lparr> animationId := Some h, ls_sched := sc \<rparr>;
          w2 = (case ls_material w1 of
                  None \<Rightarrow> w1
                | Some m \<Rightarrow> w1\<lparr> ls_material := Some (m\<lparr> mat_time := mat_time m + 0.005 \<rparr>) \<rparr>)
      in case ls_renderer w2 of
           None \<Rightarrow> Inl TypeError
         | Some rd \<Rightarrow> Inr w2)"

text \<open>
  The callback of \<^verbatim>\<open>loader.load\<close>: the texture, the material and the geometry are new
  objects; \<^verbatim>\<open>scene.add\<close> on a scene that is null throws.
\<close>

definition loader_onLoad :: "loaderScene \<Rightarrow> js_error + loaderScene" where
  "loader_onLoad w =
     (let tex = nextObject w;
          m = \<lparr> mat_id = Suc tex, tDiffuse = Some tex, mat_time = 0 \<rparr>;
          ms = \<lparr> geometry_id = Suc (Suc tex) \<rparr>;
          w1 = w\<lparr> ls_material := Some m, ls_mesh := Some ms, nextObject := Suc (Suc (Suc tex)) \<rparr>
      in case ls_scene w1 of
           None \<Rightarrow> Inl TypeError
         | Some objs \<Rightarrow> loader_animate (w1\<lparr> ls_scene := Some (objs @ [geometry_id ms]) \<rparr>))"

definition onWindowResize :: "real \<Rightarrow> real \<Rightarrow> loaderScene \<Rightarrow> loaderScene" where
  "onWindowResize innerWidth innerHeight w =
     (case ls_renderer w of
        None \<Rightarrow> w
      | Some rd \<Rightarrow> w\<lparr> ls_renderer := Some (rd\<lparr> rd_size := (innerWidth, innerHeight) \<rparr>) \<rparr>)"

text \<open>
  \<^verbatim>\<open>disposeLoaderScene\<close>, statement by statement. First the guarded
  \<^verbatim>\<open>container.removeChild(renderer.domElement)\<close>, which throws a NotFoundError when the
  canvas is not a child of the container.
\<close>

definition remove_canvas :: "loaderScene \<Rightarrow> js_error + loaderScene" where
  "remove_canvas w =
     (case ls_renderer w of
        None \<Rightarrow> Inr w
      | Some rd \<Rightarrow>
          if \<not> container w then Inr w
          else if rd_id rd \<in> set (containerChildren w)
          then Inr (w\<lparr> containerChildren := remove1 (rd_id rd) (containerChildren w) \<rparr>)
          else Inl NotFoundError)"

text \<open>The three guarded blocks that call \<^verbatim>\<open>dispose()\<close>.\<close>

definition dispose_material :: "loaderScene \<Rightarrow> loaderScene" where
  "dispose_material w =
     (case ls_material w of
        None \<Rightarrow> w
      | Some m \<Rightarrow>
          (let w1 = w\<lparr> disposed := insert (mat_id m) (disposed w) \<rparr>
           in case tDiffuse m of
                None \<Rightarrow> w1
              | Some tex \<Rightarrow> w1\<lparr> disposed := insert tex (disposed w1) \<rparr>))"

definition dispose_mesh :: "loaderScene \<Rightarrow> loaderScene" where
  "dispose_mesh w =
     (case ls_mesh w of
        None \<Rightarrow> w
      | Some ms \<Rightarrow> w\<lparr> disposed := insert (geometry_id ms) (disposed w) \<rparr>)"

definition dispose_renderer :: "loaderScene \<Rightarrow> loaderScene" where
  "dispose_renderer w =
     (case ls_renderer w of
        None \<Rightarrow> w
      | Some rd \<Rightarrow> w\<lparr> disposed := insert (rd_id rd) (disposed w) \<rparr>)"

definition disposeLoaderScene :: "loaderScene \<Rightarrow> js_error + loaderScene" where
  "disposeLoaderScene w =
     (let w1 = w\<lparr> ls_sched := cancel_if_set (animationId w) (ls_sched w) \<rparr>;
          w2 = w1\<lparr> resizeListener := False \<rparr>
      in case remove_canvas w2 of
           Inl e \<Rightarrow> Inl e
         | Inr w3 \<Rightarrow>
             (let w6 = dispose_renderer (dispose_mesh (dispose_material w3))
              in Inr (w6\<lparr> ls_scene := None, ls_camera := None, ls_renderer := None,
                         ls_material := None, ls_mesh := None \<rparr>)))"

text \<open>The GPU objects the module variables refer to.\<close>

definition owned :: "loaderScene \<Rightarrow> nat set" where
  "owned w =
     (case ls_material w of
        None \<Rightarrow> {}
      | Some m \<Rightarrow> insert (mat_id m) (case tDiffuse m of None \<Rightarrow> {} | Some tex \<Rightarrow> {tex}))
     \<union> (case ls_mesh w of None \<Rightarrow> {} | Some ms \<Rightarrow> {geometry_id ms})
     \<union> (case ls_renderer w of None \<Rightarrow> {} | Some rd \<Rightarrow> {rd_id rd})"

text \<open>
  The canvas of the renderer is a child of the container whenever both exist; this is what
  \<^verbatim>\<open>removeChild\<close> needs in order not to throw.
\<close>

definition canvas_attached :: "loaderScene \<Rightarrow> bool" where
  "canvas_attached w =
     (case ls_renderer w of
        None \<Rightarrow> True
      | Some rd \<Rightarrow> if container w then rd_id rd \<in> set (containerChildren w) else True)"

text \<open>
  The states the module goes through: its evaluation, then any interleaving of
  \<^verbatim>\<open>initLoaderScene\<close>, the texture callback, frames, resizes and disposals that do not throw.
\<close>

inductive loader_reachable :: "loaderScene \<Rightarrow> bool" where
  module: "loader_reachable (loader_module hasContainer sc)"
| initialised: "loader_reachable w \<Longrightarrow> loader_reachable (initLoaderScene iw ih dpr w)"
| texture_loaded: "loader_reachable w \<Longrightarrow> loader_onLoad w = Inr w' \<Longrightarrow> loader_reachable w'"
| frame: "loader_reachable w \<Longrightarrow> loader_animate w = Inr w' \<Longrightarrow> loader_reachable w'"
| window_resized: "loader_reachable w \<Longrightarrow> loader_reachable (onWindowResize iw ih w)"
| scene_disposed: "loader_reachable w \<Longrightarrow> disposeLoaderScene w = Inr w' \<Longrightarrow> loader_reachable w'"

section \<open>Background: what is drawn, and runs of ticks\<close>

text \<open>
  \<^verbatim>\<open>renderer.render(scene, camera)\<close> draws the full-screen plane with the material; the colour
  of one pixel is \<open>fragColor\<close> at the material's uniforms. Nothing is drawn before the
  material exists.
\<close>

definition render ::
  "(texture option \<Rightarrow> real \<times> real \<Rightarrow> vec4) \<Rightarrow> real \<times> real \<Rightarrow> real \<Rightarrow> background \<Rightarrow> vec4 option" where
  "render texture2D coord vignette s =
     (case material s of None \<Rightarrow> None | Some m \<Rightarrow> Some (fragColor texture2D coord vignette m))"

text \<open>\<open>n\<close> calls of \<^verbatim>\<open>animate\<close> in a row, stopping at the first that throws.\<close>

fun animate_n :: "nat \<Rightarrow> background \<Rightarrow> js_error + background" where
  "animate_n 0 s = Inr s"
| "animate_n (Suc n) s = (case animate s of Inl e \<Rightarrow> Inl e | Inr s' \<Rightarrow> animate_n n s')"

text \<open>The texture a slot ends up with: the loaded one, or the fallback given.\<close>

definition loaded_or :: "loader \<Rightarrow> string \<Rightarrow> texture \<Rightarrow> texture" where
  "loaded_or ld url fallback = (case ld url of OnLoad tex \<Rightarrow> tex | OnError \<Rightarrow> fallback)"

section \<open>Concrete inputs\<close>

text \<open>
  Loaders that load everything and nothing; the background of an 800 by 600 window once
  the textures are there (\<open>bg_ready\<close>) and after its first tick
  (\<open>bg_ready_ticked\<close>), one tick into the transition to \<^verbatim>\<open>orange\<close>
  (\<open>bg_inflight\<close>), retargeted to \<^verbatim>\<open>graduation\<close> from there (\<open>bg_retargeted\<close>), half a step
  before the end of a transition (\<open>bg_almost_done\<close>) and one tick later (\<open>bg_done\<close>);
  a sampler under which the default image is white and every other texture black.
\<close>

definition all_loaded :: loader where
  "all_loaded url = OnLoad (Image url)"

definition none_loaded :: loader where
  "none_loaded url = OnError"

definition bg_textures :: "string \<rightharpoonup> texture" where
  "bg_textures = Map.empty(''default'' := Some (Image url_default),
                           ''orange'' := Some (Image url_orange),
                           ''graduation'' := Some (Image url_graduation))"

definition bg_ready :: background where
  "bg_ready =
     \<lparr> textures = bg_textures,
       targetTexture = Some (Image url_default),
       currentSourceTexture = Some (Image url_default),
       transitionProgress = 0,
       isTransitioning = False,
       time = 0,
       material = Some \<lparr> uTex1 = Some (Image url_default), uTex2 = Some (Image url_default),
                         uMix = 0, uTime = 0, uResolution = (800, 600) \<rparr>,
       rendererSize = (800, 600) \<rparr>"


definition bg_inflight :: background where
  "bg_inflight =
     \<lparr> textures = bg_textures,
       targetTexture = Some (Image url_orange),
       currentSourceTexture = Some (Image url_default),
       transitionProgress = 0.01,
       isTransitioning = True,
       time = 0.01,
       material = Some \<lparr> uTex1 = Some (Image url_default), uTex2 = Some (Image url_orange),
                         uMix = 0.01, uTime = 0.01, uResolution = (800, 600) \<rparr>,
       rendererSize = (800, 600) \<rparr>"

definition bg_retargeted :: background where
  "bg_retargeted =
     \<lparr> textures = bg_textures,
       targetTexture = Some (Image url_graduation),
       currentSourceTexture = Some (Image url_orange),
       transitionProgress = 0,
       isTransitioning = True,
       time = 0.01,
       material = Some \<lparr> uTex1 = Some (Image url_orange), uTex2 = Some (Image url_graduation),
                         uMix = 0, uTime = 0.01, uResolution = (800, 600) \<rparr>,
       rendererSize = (800, 600) \<rparr>"

definition bg_almost_done :: background where
  "bg_almost_done =
     \<lparr> textures = bg_textures,
       targetTexture = Some (Image url_orange),
       currentSourceTexture = Some (Image url_default),
       transitionProgress = 0.995,
       isTransitioning = True,
       time = 0.5,
       material = Some \<lparr> uTex1 = Some (Image url_default), uTex2 = Some (Image url_orange),
                         uMix = 0.995, uTime = 0.5, uResolution = (800, 600) \<rparr>,
       rendererSize = (800, 600) \<rparr>"

definition bg_done :: background where
  "bg_done =
     \<lparr> textures = bg_textures,
       targetTexture = Some (Image url_orange),
       currentSourceTexture = Some (Image url_default),
       transitionProgress = 1,
       isTransitioning = False,
       time = 0.51,
       material = Some \<lparr> uTex1 = Some (Image url_default), uTex2 = Some (Image url_orange),
                         uMix = 1, uTime = 0.51, uResolution = (800, 600) \<rparr>,
       rendererSize = (800, 600) \<rparr>"

definition sample_flat :: "texture option \<Rightarrow> real \<times> real \<Rightarrow> vec4" where
  "sample_flat t coord = (if t = Some (Image url_default) then Vec4 1 1 1 1 else Vec4 0 0 0 1)"

text \<open>
  A scheduler with nothing pending; a desktop and a touch blob cursor just constructed;
  the desktop cursor after a mouse move to \<open>(140, 100)\<close> (\<open>bc_moved\<close>); the touch cursor
  with two fingers down (\<open>bc_two_fingers\<close>) and after both have been lifted, one event
  each (\<open>bc_two_ends\<close>); the loader scene after \<^verbatim>\<open>initLoaderScene\<close> and the texture
  callback in a 1024 by 768 window (\<open>loader_running\<close>), and after its disposal
  (\<open>loader_disposed\<close>).
\<close>

definition sched0 :: scheduler where
  "sched0 = \<lparr> frames = {}, timeouts = {}, nextHandle = 0 \<rparr>"

definition bc_desktop :: blobCursor where
  "bc_desktop = new_BlobCursor False 200 200 0 0 sched0"

definition bc_touch :: blobCursor where
  "bc_touch = new_BlobCursor True 400 800 0 0 sched0"


definition bc_two_fingers :: blobCursor where
  "bc_two_fingers =
     handleTouchStart [(120, 300), (200, 310)] (handleTouchStart [(120, 300)] bc_touch)"

definition bc_two_ends :: blobCursor where
  "bc_two_ends = handleTouchEnd (handleTouchEnd bc_two_fingers)"

definition loader_running :: loaderScene where
  "loader_running =
     \<lparr> ls_scene = Some [3],
       ls_camera = Some (),
       ls_renderer = Some \<lparr> rd_id = 0, rd_size = (1024, 768), rd_pixelRatio = 1 \<rparr>,
       ls_material = Some \<lparr> mat_id = 2, tDiffuse = Some 1, mat_time = 0.005 \<rparr>,
       ls_mesh = Some \<lparr> geometry_id = 3 \<rparr>,
       animationId = Some 1,
       container = True,
       ls_sched = \<lparr> frames = {1}, timeouts = {}, nextHandle = 1 \<rparr>,
       containerChildren = [0],
       resizeListener = True,
       nextObject = 4,
       disposed = {} \<rparr>"

definition loader_disposed :: loaderScene where
  "loader_disposed =
     \<lparr> ls_scene = None,
       ls_camera = None,
       ls_renderer = None,
       ls_material = None,
       ls_mesh = None,
       animationId = Some 1,
       container = True,
       ls_sched = \<lparr> frames = {}, timeouts = {}, nextHandle = 1 \<rparr>,
       containerChildren = [],
       resizeListener = False,
       nextObject = 4,
       disposed = {0, 1, 2, 3} \<rparr>"

section \<open>Background: loading and the concrete states\<close>

lemma promise_all_loadTex:
  "promise_all [loadTex ld a, loadTex ld b, loadTex ld c] =
     Resolved [case ld a of OnLoad t \<Rightarrow> Some t | OnError \<Rightarrow> None,
               case ld b of OnLoad t \<Rightarrow> Some t | OnError \<Rightarrow> None,
               case ld c of OnLoad t \<Rightarrow> Some t | OnError \<Rightarrow> None]"
  by (simp add: loadTex_def split: load_outcome.splits)

lemma loadTextures_resolves: "\<exists>s'. loadTextures ld s = Resolved s'"
  by (simp add: loadTextures_def promise_all_loadTex Let_def)

lemma loadTextures_progress:
  "loadTextures ld s = Resolved s' \<Longrightarrow> transitionProgress s' = transitionProgress s"
  by (auto simp add: loadTextures_def promise_all_loadTex Let_def)

lemma loadTextures_material:
  "loadTextures ld s = Resolved s' \<Longrightarrow> material s' = material s"
  by (auto simp add: loadTextures_def promise_all_loadTex Let_def)

lemma bg_ready_run:
  "loadTextures all_loaded (new_Background 800 600) = Resolved s \<Longrightarrow> setupMaterial 800 600 s = bg_ready"
  by (auto simp add: loadTextures_def promise_all_loadTex all_loaded_def new_Background_def element_at_def
      or_else_def Let_def setupMaterial_def bg_ready_def bg_textures_def)

lemma reachable_bg_ready: "reachable bg_ready"
proof -
  obtain s where s: "loadTextures all_loaded (new_Background 800 600) = Resolved s"
    using loadTextures_resolves by blast
  have "material (new_Background 800 600) = None"
    by (simp add: new_Background_def)
  from reachable.loaded [OF reachable.constructed this s, of 800 600] bg_ready_run [OF s]
  show ?thesis by simp
qed

lemma setTarget_orange_ready:
  "setTarget ''orange'' bg_ready = Inr (bg_inflight\<lparr> transitionProgress := 0, time := 0,
      material := Some \<lparr> uTex1 = Some (Image url_default), uTex2 = Some (Image url_orange),
                         uMix = 0, uTime = 0, uResolution = (800, 600) \<rparr> \<rparr>)"
  by (simp add: setTarget_def bg_ready_def bg_inflight_def bg_textures_def url_default_def url_orange_def)

lemma reachable_bg_inflight: "reachable bg_inflight"
proof -
  let ?s = "bg_inflight\<lparr> transitionProgress := 0, time := 0,
      material := Some \<lparr> uTex1 = Some (Image url_default), uTex2 = Some (Image url_orange),
                         uMix = 0, uTime = 0, uResolution = (800, 600) \<rparr> \<rparr>"
  have r: "reachable ?s"
    using reachable.retargeted [OF reachable_bg_ready setTarget_orange_ready] .
  have "animate ?s = Inr bg_inflight"
    by (simp add: animate_def bg_inflight_def Let_def timeStep_def transitionSpeed_def)
  from reachable.ticked [OF r this] show ?thesis .
qed

lemma mix4_zero: "mix4 c1 c2 0 = c1"
  by (cases c1; cases c2) (simp add: mix_def)

lemma mix4_one: "mix4 c1 c2 1 = c2"
  by (cases c1; cases c2) (simp add: mix_def)

section \<open>Retargeting during a transition\<close>

text \<open>
  Claim C1 says that a \<^verbatim>\<open>setTarget\<close> with a new destination during a transition captures
  the blend on display as the new source, so that the picture does not change at the call.
  One tick into the transition from the default image to \<^verbatim>\<open>orange\<close>, a pixel that is white
  in the default image and black in the others shows \<open>0.99\<close>; after
  \<^verbatim>\<open>setTarget('graduation')\<close> it shows \<open>0\<close>, the colour of \<^verbatim>\<open>orange\<close> alone.
\<close>

theorem setTarget_retarget_pops:
  "isTransitioning bg_inflight \<and> 0 < transitionProgress bg_inflight
   \<and> transitionProgress bg_inflight < 1
   \<and> setTarget ''graduation'' bg_inflight = Inr bg_retargeted
   \<and> render sample_flat (0, 0) 1 bg_inflight = Some (Vec4 0.99 0.99 0.99 1)
   \<and> render sample_flat (0, 0) 1 bg_retargeted = Some (Vec4 0 0 0 1)
   \<and> render sample_flat (0, 0) 1 bg_retargeted \<noteq> render sample_flat (0, 0) 1 bg_inflight"
  by (simp add: setTarget_def bg_inflight_def bg_retargeted_def bg_textures_def render_def
      fragColor_def sample_flat_def mix_def url_default_def url_orange_def url_graduation_def)

text \<open>
  Claim C1, as the code has it: during a transition, \<^verbatim>\<open>setTarget\<close> with a texture other than
  the current target makes the previous target texture (not the blend on display) the new
  source, in \<^verbatim>\<open>currentSourceTexture\<close> and \<^verbatim>\<open>uTex1\<close>, makes the new texture the target, in
  \<^verbatim>\<open>targetTexture\<close> and \<^verbatim>\<open>uTex2\<close>, resets \<^verbatim>\<open>transitionProgress\<close> and \<^verbatim>\<open>uMix\<close> to 0 and
  stays in transition; what is drawn right after the call is the previous target texture
  alone. The progress is 0 after the call, so it never leaves the interval from 0 to 1.
\<close>

theorem setTarget_retarget:
  assumes "isTransitioning s" and "0 < transitionProgress s" and "transitionProgress s < 1"
    and "material s = Some m"
    and "textures s textureName = Some newTex" and "targetTexture s \<noteq> Some newTex"
  shows "\<exists>s'. setTarget textureName s = Inr s'
           \<and> currentSourceTexture s' = targetTexture s
           \<and> targetTexture s' = Some newTex
           \<and> material s' = Some (m\<lparr> uTex1 := targetTexture s, uTex2 := Some newTex, uMix := 0 \<rparr>)
           \<and> transitionProgress s' = 0
           \<and> isTransitioning s'
           \<and> render texture2D coord vignette s'
               = Some (scale_rgb (texture2D (targetTexture s) coord) vignette)"
  using assms by (simp add: setTarget_def render_def fragColor_def mix4_zero)

theorem setTarget_retarget_witness:
  "isTransitioning bg_inflight \<and> 0 < transitionProgress bg_inflight
   \<and> transitionProgress bg_inflight < 1
   \<and> textures bg_inflight ''graduation'' = Some (Image url_graduation)
   \<and> targetTexture bg_inflight \<noteq> Some (Image url_graduation)
   \<and> (\<exists>s'. setTarget ''graduation'' bg_inflight = Inr s'
          \<and> currentSourceTexture s' = Some (Image url_orange)
          \<and> targetTexture s' = Some (Image url_graduation)
          \<and> transitionProgress s' = 0
          \<and> isTransitioning s'
          \<and> render sample_flat (0, 0) 1 s' = Some (Vec4 0 0 0 1))"
proof -
  have a: "isTransitioning bg_inflight" "0 < transitionProgress bg_inflight"
    "transitionProgress bg_inflight < 1"
    "material bg_inflight = Some \<lparr> uTex1 = Some (Image url_default), uTex2 = Some (Image url_orange),
                         uMix = 0.01, uTime = 0.01, uResolution = (800, 600) \<rparr>"
    "textures bg_inflight ''graduation'' = Some (Image url_graduation)"
    "targetTexture bg_inflight \<noteq> Some (Image url_graduation)"
    by (simp_all add: bg_inflight_def bg_textures_def url_orange_def url_graduation_def)
  have t: "targetTexture bg_inflight = Some (Image url_orange)"
    by (simp add: bg_inflight_def)
  have c: "scale_rgb (sample_flat (Some (Image url_orange)) (0, 0)) 1 = Vec4 0 0 0 1"
    by (simp add: sample_flat_def url_default_def url_orange_def)
  from setTarget_retarget [OF a, of sample_flat "(0, 0)" 1] a t c
  show ?thesis by auto
qed

section \<open>Completion of a transition\<close>

lemma idle_tick:
  assumes "\<not> isTransitioning s" and "material s = Some m"
  shows "animate s = Inr (s\<lparr> time := time s + timeStep,
                             material := Some (m\<lparr> uTime := time s + timeStep \<rparr>) \<rparr>)"
  using assms by (simp add: animate_def Let_def)

lemma idle_ticks:
  assumes "\<not> isTransitioning s" and "material s = Some m"
  shows "\<exists>s' m'. animate_n n s = Inr s'
           \<and> transitionProgress s' = transitionProgress s
           \<and> \<not> isTransitioning s'
           \<and> currentSourceTexture s' = currentSourceTexture s
           \<and> targetTexture s' = targetTexture s
           \<and> textures s' = textures s
           \<and> material s' = Some m'
           \<and> uTex1 m' = uTex1 m \<and> uTex2 m' = uTex2 m \<and> uMix m' = uMix m"
  using assms
proof (induction n arbitrary: s m)
  case 0
  then show ?case by simp
next
  case (Suc n)
  let ?s1 = "s\<lparr> time := time s + timeStep,
                 material := Some (m\<lparr> uTime := time s + timeStep \<rparr>) \<rparr>"
  have a: "animate s = Inr ?s1"
    using idle_tick [OF Suc.prems] .
  have "\<not> isTransitioning ?s1" and "material ?s1 = Some (m\<lparr> uTime := time s + timeStep \<rparr>)"
    using Suc.prems by simp_all
  from Suc.IH [OF this] a show ?case by simp
qed

lemma setTarget_new:
  assumes "material s = Some m" and "textures s textureName = Some newTex"
    and "targetTexture s \<noteq> Some newTex"
  shows "setTarget textureName s
     = Inr (s\<lparr> currentSourceTexture := targetTexture s,
               targetTexture := Some newTex,
               material := Some (m\<lparr> uTex1 := targetTexture s, uTex2 := Some newTex, uMix := 0 \<rparr>),
               transitionProgress := 0,
               isTransitioning := True \<rparr>)"
  using assms by (simp add: setTarget_def)

text \<open>
  Claim C2 says that the tick on which the progress reaches 1 commits the target as the new
  source and resets the progress to 0. Half a step before the end of the transition from
  the default image to \<^verbatim>\<open>orange\<close>, the tick leaves the progress at 1 and the source at the
  default image.
\<close>

theorem animate_completion_keeps_source:
  "isTransitioning bg_almost_done
   \<and> transitionProgress bg_almost_done + transitionSpeed \<ge> 1
   \<and> animate bg_almost_done = Inr bg_done
   \<and> transitionProgress bg_done = 1
   \<and> transitionProgress bg_done \<noteq> 0
   \<and> currentSourceTexture bg_done = Some (Image url_default)
   \<and> targetTexture bg_almost_done = Some (Image url_orange)
   \<and> currentSourceTexture bg_done \<noteq> targetTexture bg_almost_done"
  by (simp add: animate_def bg_almost_done_def bg_done_def Let_def timeStep_def transitionSpeed_def
      url_default_def url_orange_def)

text \<open>
  Claim C2, as the code has it: on a tick in which the progress reaches or passes 1, the
  progress and \<^verbatim>\<open>uMix\<close> are set to exactly 1 and the controller leaves the transition; the
  source and target textures and \<^verbatim>\<open>uTex1\<close>, \<^verbatim>\<open>uTex2\<close> are left as they are, and what is
  drawn is the target texture alone. After any number of further ticks the state is still
  idle with the progress at 1 and the same source and target, until a new target is set:
  a \<^verbatim>\<open>setTarget\<close> with another texture then makes the former target the source and resets
  the progress to 0.
\<close>

theorem animate_completion:
  assumes "isTransitioning s" and "transitionProgress s + transitionSpeed \<ge> 1"
    and "material s = Some m"
  shows "\<exists>s'. animate s = Inr s'
           \<and> transitionProgress s' = 1
           \<and> \<not> isTransitioning s'
           \<and> currentSourceTexture s' = currentSourceTexture s
           \<and> targetTexture s' = targetTexture s
           \<and> material s' = Some (m\<lparr> uTime := time s + timeStep, uMix := 1 \<rparr>)
           \<and> render texture2D coord vignette s'
               = Some (scale_rgb (texture2D (uTex2 m) coord) vignette)
           \<and> (\<forall>n. \<exists>s''. animate_n n s' = Inr s''
                  \<and> transitionProgress s'' = 1
                  \<and> \<not> isTransitioning s''
                  \<and> currentSourceTexture s'' = currentSourceTexture s
                  \<and> targetTexture s'' = targetTexture s
                  \<and> (\<forall>textureName newTex.
                        textures s textureName = Some newTex \<and> targetTexture s \<noteq> Some newTex
                        \<longrightarrow> (\<exists>s3. setTarget textureName s'' = Inr s3
                               \<and> currentSourceTexture s3 = targetTexture s
                               \<and> targetTexture s3 = Some newTex
                               \<and> transitionProgress s3 = 0
                               \<and> isTransitioning s3)))"
proof -
  let ?m1 = "m\<lparr> uTime := time s + timeStep, uMix := 1 \<rparr>"
  let ?s1 = "s\<lparr> time := time s + timeStep, transitionProgress := 1, isTransitioning := False,
                 material := Some ?m1 \<rparr>"
  have a: "animate s = Inr ?s1"
    using assms by (simp add: animate_def Let_def)
  have r: "render texture2D coord vignette ?s1
      = Some (scale_rgb (texture2D (uTex2 m) coord) vignette)"
    by (simp add: render_def fragColor_def mix4_one)
  have idle: "\<not> isTransitioning ?s1" and mat: "material ?s1 = Some ?m1"
    by simp_all
  have later: "\<exists>s''. animate_n n ?s1 = Inr s''
        \<and> transitionProgress s'' = 1
        \<and> \<not> isTransitioning s''
        \<and> currentSourceTexture s'' = currentSourceTexture s
        \<and> targetTexture s'' = targetTexture s
        \<and> (\<forall>textureName newTex.
              textures s textureName = Some newTex \<and> targetTexture s \<noteq> Some newTex
              \<longrightarrow> (\<exists>s3. setTarget textureName s'' = Inr s3
                     \<and> currentSourceTexture s3 = targetTexture s
                     \<and> targetTexture s3 = Some newTex
                     \<and> transitionProgress s3 = 0
                     \<and> isTransitioning s3))" for n
  proof -
    obtain s'' m'' where n: "animate_n n ?s1 = Inr s''"
      and p: "transitionProgress s'' = 1" "\<not> isTransitioning s''"
        "currentSourceTexture s'' = currentSourceTexture s"
        "targetTexture s'' = targetTexture s" "textures s'' = textures s"
      and m: "material s'' = Some m''"
      using idle_ticks [OF idle mat, of n] by auto
    have "\<exists>s3. setTarget textureName s'' = Inr s3
            \<and> currentSourceTexture s3 = targetTexture s
            \<and> targetTexture s3 = Some newTex
            \<and> transitionProgress s3 = 0
            \<and> isTransitioning s3"
      if "textures s textureName = Some newTex" and "targetTexture s \<noteq> Some newTex"
      for textureName newTex
      using setTarget_new [OF m, of textureName newTex] that p(4,5) by simp
    with n p show ?thesis by blast
  qed
  show ?thesis
    using a r later by (intro exI [of _ ?s1]) simp
qed

theorem animate_completion_witness:
  "isTransitioning bg_almost_done
   \<and> transitionProgress bg_almost_done + transitionSpeed \<ge> 1
   \<and> textures bg_almost_done ''default'' = Some (Image url_default)
   \<and> targetTexture bg_almost_done \<noteq> Some (Image url_default)
   \<and> (\<exists>s'. animate bg_almost_done = Inr s'
          \<and> transitionProgress s' = 1
          \<and> \<not> isTransitioning s'
          \<and> currentSourceTexture s' = Some (Image url_default)
          \<and> targetTexture s' = Some (Image url_orange)
          \<and> render sample_flat (0, 0) 1 s' = Some (Vec4 0 0 0 1)
          \<and> (\<exists>s''. animate_n 3 s' = Inr s''
                 \<and> transitionProgress s'' = 1
                 \<and> \<not> isTransitioning s''
                 \<and> currentSourceTexture s'' = Some (Image url_default)
                 \<and> (\<exists>s3. setTarget ''default'' s'' = Inr s3
                        \<and> currentSourceTexture s3 = Some (Image url_orange)
                        \<and> targetTexture s3 = Some (Image url_default)
                        \<and> transitionProgress s3 = 0
                        \<and> isTransitioning s3)))"
proof -
  have a: "isTransitioning bg_almost_done"
    "transitionProgress bg_almost_done + transitionSpeed \<ge> 1"
    "material bg_almost_done = Some \<lparr> uTex1 = Some (Image url_default),
       uTex2 = Some (Image url_orange), uMix = 0.995, uTime = 0.5, uResolution = (800, 600) \<rparr>"
    by (simp_all add: bg_almost_done_def transitionSpeed_def)
  have b: "currentSourceTexture bg_almost_done = Some (Image url_default)"
    "targetTexture bg_almost_done = Some (Image url_orange)"
    "textures bg_almost_done ''default'' = Some (Image url_default)"
    "targetTexture bg_almost_done \<noteq> Some (Image url_default)"
    by (simp_all add: bg_almost_done_def bg_textures_def url_default_def url_orange_def)
  have c: "scale_rgb (sample_flat (Some (Image url_orange)) (0, 0)) 1 = Vec4 0 0 0 1"
    by (simp add: sample_flat_def url_default_def url_orange_def)
  from animate_completion [OF a, of sample_flat "(0, 0)" 1]
  obtain s' where s': "animate bg_almost_done = Inr s'"
      "transitionProgress s' = 1" "\<not> isTransitioning s'"
      "currentSourceTexture s' = currentSourceTexture bg_almost_done"
      "targetTexture s' = targetTexture bg_almost_done"
      "render sample_flat (0, 0) 1 s'
         = Some (scale_rgb (sample_flat (uTex2 \<lparr> uTex1 = Some (Image url_default),
       uTex2 = Some (Image url_orange), uMix = 0.995, uTime = 0.5, uResolution = (800, 600) \<rparr>) (0, 0)) 1)"
    and l: "\<forall>n. \<exists>s''. animate_n n s' = Inr s''
                  \<and> transitionProgress s'' = 1
                  \<and> \<not> isTransitioning s''
                  \<and> currentSourceTexture s'' = currentSourceTexture bg_almost_done
                  \<and> targetTexture s'' = targetTexture bg_almost_done
                  \<and> (\<forall>textureName newTex.
                        textures bg_almost_done textureName = Some newTex
                        \<and> targetTexture bg_almost_done \<noteq> Some newTex
                        \<longrightarrow> (\<exists>s3. setTarget textureName s'' = Inr s3
                               \<and> currentSourceTexture s3 = targetTexture bg_almost_done
                               \<and> targetTexture s3 = Some newTex
                               \<and> transitionProgress s3 = 0
                               \<and> isTransitioning s3))"
    by blast
  from l obtain s'' where s'': "animate_n 3 s' = Inr s''"
      "transitionProgress s'' = 1" "\<not> isTransitioning s''"
      "currentSourceTexture s'' = currentSourceTexture bg_almost_done"
    and st: "\<forall>textureName newTex.
                        textures bg_almost_done textureName = Some newTex
                        \<and> targetTexture bg_almost_done \<noteq> Some newTex
                        \<longrightarrow> (\<exists>s3. setTarget textureName s'' = Inr s3
                               \<and> currentSourceTexture s3 = targetTexture bg_almost_done
                               \<and> targetTexture s3 = Some newTex
                               \<and> transitionProgress s3 = 0
                               \<and> isTransitioning s3)"
    by blast
  from st b(3,4) obtain s3 where s3: "setTarget ''default'' s'' = Inr s3"
      "currentSourceTexture s3 = targetTexture bg_almost_done"
      "targetTexture s3 = Some (Image url_default)"
      "transitionProgress s3 = 0" "isTransitioning s3"
    by blast
  show ?thesis
    using a(1,2) b s' s'' s3 c by auto
qed

section \<open>The progress is monotone and bounded\<close>

lemma animate_progress_step:
  assumes "animate s = Inr s'" and "0 \<le> transitionProgress s" and "transitionProgress s \<le> 1"
  shows "transitionProgress s \<le> transitionProgress s' \<and> transitionProgress s' \<le> 1"
  using assms
  by (auto simp add: animate_def Let_def transitionSpeed_def split: option.splits if_splits)

lemma setTarget_progress:
  "setTarget n s = Inr s' \<Longrightarrow> transitionProgress s' = 0 \<or> s' = s"
  by (auto simp add: setTarget_def split: option.splits if_splits)

lemma reachable_progress_range:
  "reachable s \<Longrightarrow> 0 \<le> transitionProgress s \<and> transitionProgress s \<le> 1"
proof (induction rule: reachable.induct)
  case (constructed w h)
  show ?case by (simp add: new_Background_def)
next
  case (loaded s ld s' w h)
  then show ?case
    using loadTextures_progress [of ld s s'] by (simp add: setupMaterial_def)
next
  case (retargeted s textureName s')
  then show ?case
    using setTarget_progress [of textureName s s'] by auto
next
  case (ticked s s')
  then show ?case
    using animate_progress_step [of s s'] by simp
next
  case (resized s w h)
  then show ?case by (simp add: handleResize_def)
qed

lemma reachable_animate_n:
  "reachable s \<Longrightarrow> animate_n n s = Inr s' \<Longrightarrow> reachable s'"
proof (induction n arbitrary: s)
  case 0
  then show ?case by simp
next
  case (Suc n)
  then obtain s1 where a: "animate s = Inr s1" and b: "animate_n n s1 = Inr s'"
    by (auto split: sum.splits)
  from Suc.IH [OF reachable.ticked [OF Suc.prems(1) a] b] show ?case .
qed

lemma animate_n_progress:
  "reachable s \<Longrightarrow> animate_n n s = Inr s' \<Longrightarrow> transitionProgress s \<le> transitionProgress s'"
proof (induction n arbitrary: s)
  case 0
  then show ?case by simp
next
  case (Suc n)
  then obtain s1 where a: "animate s = Inr s1" and b: "animate_n n s1 = Inr s'"
    by (auto split: sum.splits)
  have "transitionProgress s \<le> transitionProgress s1"
    using animate_progress_step [OF a] reachable_progress_range [OF Suc.prems(1)] by simp
  moreover have "transitionProgress s1 \<le> transitionProgress s'"
    using Suc.IH [OF reachable.ticked [OF Suc.prems(1) a] b] .
  ultimately show ?case by simp
qed

text \<open>
  Claim C3: at every reachable state (after the constructor, the loading, any \<^verbatim>\<open>setTarget\<close>,
  any tick, any resize) \<^verbatim>\<open>transitionProgress\<close> lies between 0 and 1, and along every run of
  ticks from such a state it never decreases: the state \<open>s'\<close> reached after any number \<open>n\<close>
  of ticks has a progress at least that of \<open>s\<close>, and at most 1.
\<close>

theorem progress_monotone_and_bounded:
  assumes "reachable s" and "animate_n n s = Inr s'"
  shows "0 \<le> transitionProgress s \<and> transitionProgress s \<le> transitionProgress s'
         \<and> transitionProgress s' \<le> 1"
  using reachable_progress_range [OF assms(1)]
    reachable_progress_range [OF reachable_animate_n [OF assms]]
    animate_n_progress [OF assms]
  by simp

theorem progress_monotone_and_bounded_witness:
  "reachable bg_inflight
   \<and> (\<exists>s'. animate_n (Suc (Suc 0)) bg_inflight = Inr s'
          \<and> transitionProgress s' = 0.03
          \<and> 0 \<le> transitionProgress bg_inflight
          \<and> transitionProgress bg_inflight \<le> transitionProgress s'
          \<and> transitionProgress s' \<le> 1)"
proof -
  have "\<exists>s'. animate_n (Suc (Suc 0)) bg_inflight = Inr s' \<and> transitionProgress s' = 0.03"
    by (simp add: animate_def bg_inflight_def Let_def transitionSpeed_def timeStep_def)
  then obtain s' where a: "animate_n (Suc (Suc 0)) bg_inflight = Inr s'"
    and b: "transitionProgress s' = 0.03"
    by blast
  from progress_monotone_and_bounded [OF reachable_bg_inflight a] reachable_bg_inflight a b
  show ?thesis by blast
qed

section \<open>Setting the current target again\<close>

text \<open>
  Claim C4: in every state whose current target is the texture registered under the name
  \<open>textureName\<close>, \<^verbatim>\<open>setTarget(textureName)\<close> returns without changing anything: the whole
  state, with the progress, the source and target textures, the transition flag and every
  uniform, is the one before the call.
\<close>

theorem setTarget_same_noop:
  assumes "textures s textureName = Some tex" and "targetTexture s = Some tex"
  shows "setTarget textureName s = Inr s"
  using assms by (simp add: setTarget_def)

theorem setTarget_same_noop_witness:
  "textures bg_done ''orange'' = Some (Image url_orange)
   \<and> targetTexture bg_done = Some (Image url_orange)
   \<and> setTarget ''orange'' bg_done = Inr bg_done"
proof -
  have a: "textures bg_done ''orange'' = Some (Image url_orange)"
    "targetTexture bg_done = Some (Image url_orange)"
    by (simp_all add: bg_done_def bg_textures_def)
  from setTarget_same_noop [OF a] a show ?thesis by simp
qed

section \<open>The mix uniform follows the progress\<close>

lemma setTarget_uMix:
  assumes "setTarget n s = Inr s'" and "material s' = Some m'"
    and "\<And>m. material s = Some m \<Longrightarrow> uMix m = transitionProgress s"
  shows "uMix m' = transitionProgress s'"
  using assms by (auto simp add: setTarget_def split: option.splits if_splits)

lemma animate_uMix:
  assumes "animate s = Inr s'" and "material s' = Some m'"
    and "\<And>m. material s = Some m \<Longrightarrow> uMix m = transitionProgress s"
  shows "uMix m' = transitionProgress s'"
  using assms by (auto simp add: animate_def Let_def split: option.splits if_splits)

lemma handleResize_uMix:
  assumes "material (handleResize w h s) = Some m'"
    and "\<And>m. material s = Some m \<Longrightarrow> uMix m = transitionProgress s"
  shows "uMix m' = transitionProgress (handleResize w h s)"
  using assms by (auto simp add: handleResize_def split: option.splits)

lemma reachable_constructed_progress:
  "reachable s \<Longrightarrow> material s = None \<Longrightarrow> transitionProgress s = 0"
proof (induction rule: reachable.induct)
  case (constructed w h)
  show ?case by (simp add: new_Background_def)
next
  case (loaded s ld s' w h)
  then show ?case by (simp add: setupMaterial_def)
next
  case (retargeted s textureName s')
  then show ?case
    by (auto simp add: setTarget_def split: option.splits if_splits)
next
  case (ticked s s')
  then show ?case
    by (auto simp add: animate_def Let_def split: option.splits if_splits)
next
  case (resized s w h)
  then show ?case by (auto simp add: handleResize_def split: option.splits)
qed

text \<open>
  Claim C10: in every reachable state that has a material, the uniform \<^verbatim>\<open>uMix\<close> equals
  \<^verbatim>\<open>transitionProgress\<close>: \<^verbatim>\<open>setupMaterial\<close> starts both at 0, \<^verbatim>\<open>setTarget\<close> resets both,
  \<^verbatim>\<open>animate\<close> writes the progress it computed into \<^verbatim>\<open>uMix\<close>, and \<^verbatim>\<open>handleResize\<close> touches
  neither.
\<close>

theorem uMix_tracks_progress:
  assumes "reachable s" and "material s = Some m"
  shows "uMix m = transitionProgress s"
  using assms
proof (induction arbitrary: m rule: reachable.induct)
  case (constructed w h)
  then show ?case by (simp add: new_Background_def)
next
  case (loaded s ld s' w h)
  have "transitionProgress s' = 0"
    using loaded.hyps loadTextures_progress [of ld s s'] reachable_constructed_progress [of s]
    by simp
  with loaded.prems show ?case by (auto simp add: setupMaterial_def)
next
  case (retargeted s textureName s')
  show ?case
    using setTarget_uMix [OF retargeted.hyps(2) retargeted.prems] retargeted.IH by blast
next
  case (ticked s s')
  show ?case
    using animate_uMix [OF ticked.hyps(2) ticked.prems] ticked.IH by blast
next
  case (resized s w h)
  show ?case
    using handleResize_uMix [OF resized.prems] resized.IH by blast
qed

theorem uMix_tracks_progress_witness:
  "reachable bg_inflight
   \<and> material bg_inflight = Some \<lparr> uTex1 = Some (Image url_default),
        uTex2 = Some (Image url_orange), uMix = 0.01, uTime = 0.01, uResolution = (800, 600) \<rparr>
   \<and> uMix \<lparr> uTex1 = Some (Image url_default),
        uTex2 = Some (Image url_orange), uMix = 0.01, uTime = 0.01, uResolution = (800, 600) \<rparr>
       = transitionProgress bg_inflight"
proof -
  have m: "material bg_inflight = Some \<lparr> uTex1 = Some (Image url_default),
        uTex2 = Some (Image url_orange), uMix = 0.01, uTime = 0.01, uResolution = (800, 600) \<rparr>"
    by (simp add: bg_inflight_def)
  from uMix_tracks_progress [OF reachable_bg_inflight m] reachable_bg_inflight m
  show ?thesis by blast
qed

section \<open>Texture fallbacks\<close>

text \<open>
  Claim C8: whatever the loader does for each of the three images, the promise of
  \<^verbatim>\<open>loadTextures\<close> resolves (it is never rejected), and afterwards no texture slot is null:
  \<^verbatim>\<open>default\<close> holds the loaded texture or else a blank texture, \<^verbatim>\<open>orange\<close> and
  \<^verbatim>\<open>graduation\<close> hold their loaded texture or else what \<^verbatim>\<open>default\<close> holds, the source and
  the target are the \<^verbatim>\<open>default\<close> slot, and the material is set up with it.
\<close>

theorem loadTextures_fallbacks:
  "\<exists>s'. loadTextures ld s = Resolved s'
      \<and> textures s' ''default'' = Some (loaded_or ld url_default BlankTexture)
      \<and> textures s' ''orange''
          = Some (loaded_or ld url_orange (loaded_or ld url_default BlankTexture))
      \<and> textures s' ''graduation''
          = Some (loaded_or ld url_graduation (loaded_or ld url_default BlankTexture))
      \<and> targetTexture s' = Some (loaded_or ld url_default BlankTexture)
      \<and> currentSourceTexture s' = Some (loaded_or ld url_default BlankTexture)
      \<and> material (setupMaterial w h s')
          = Some \<lparr> uTex1 = Some (loaded_or ld url_default BlankTexture),
                   uTex2 = Some (loaded_or ld url_default BlankTexture),
                   uMix = 0, uTime = 0, uResolution = (w, h) \<rparr>"
  by (simp add: loadTextures_def promise_all_loadTex Let_def element_at_def or_else_def
      loaded_or_def setupMaterial_def split: load_outcome.splits)

theorem loadTextures_fallbacks_witness:
  "\<exists>s'. loadTextures none_loaded (new_Background 800 600) = Resolved s'
      \<and> textures s' ''default'' = Some BlankTexture
      \<and> textures s' ''orange'' = Some BlankTexture
      \<and> textures s' ''graduation'' = Some BlankTexture
      \<and> targetTexture s' = Some BlankTexture
      \<and> currentSourceTexture s' = Some BlankTexture
      \<and> material (setupMaterial 800 600 s')
          = Some \<lparr> uTex1 = Some BlankTexture, uTex2 = Some BlankTexture,
                   uMix = 0, uTime = 0, uResolution = (800, 600) \<rparr>"
  using loadTextures_fallbacks [of none_loaded "new_Background 800 600" 800 600]
  by (simp add: loaded_or_def none_loaded_def)

section \<open>Blob cursor: positions after construction\<close>

lemma length_follow: "length (follow cfg dt grow vel index tgt bs) = length bs"
  by (induction bs arbitrary: index tgt) (simp_all add: Let_def)

lemma length_blobs_new: "length (blobs (new_BlobCursor touch w h t0 t1 sc))
   = cfg_count (if touch then CONFIG_mobile else CONFIG_desktop)"
  by (simp add: new_BlobCursor_def blob_animate_def createBlobs_def setBlobOpacity_def Let_def
      split_def length_follow)

lemma isTouching_new: "\<not> isTouching (new_BlobCursor touch w h t0 t1 sc)"
  by (simp add: new_BlobCursor_def blob_animate_def createBlobs_def setBlobOpacity_def Let_def
      split_def)

lemma new_BlobCursor_positions:
  "target (new_BlobCursor touch w h t0 t1 sc) = (w / 2, h / 2)"
  "lastPosition (new_BlobCursor touch w h t0 t1 sc) = (w / 2, h / 2)"
  by (simp_all add: new_BlobCursor_def blob_animate_def createBlobs_def setBlobOpacity_def Let_def
      split_def)









section \<open>Loader scene: the concrete run\<close>

lemma loader_running_run:
  "loader_onLoad (initLoaderScene 1024 768 1 (loader_module True sched0)) = Inr loader_running"
  by (simp add: loader_onLoad_def initLoaderScene_def loader_module_def sched0_def Let_def
      loader_animate_def requestAnimationFrame_def loader_running_def)

lemma loader_reachable_running: "loader_reachable loader_running"
  using loader_reachable.texture_loaded
    [OF loader_reachable.initialised [OF loader_reachable.module] loader_running_run] .

section \<open>Frame time\<close>




section \<open>Touch start\<close>

text \<open>
  Claim C6: a \<^verbatim>\<open>touchstart\<close> event that carries a touch at \<open>(x, y)\<close> sets, within the
  handler, the current position \<^verbatim>\<open>mouse\<close>, the target and the position of every blob of the
  chain to \<open>(x, y)\<close>, and marks the cursor as touching and active; no tick and no smoothing
  is involved. This holds in every state, in particular when no touch was in progress.
\<close>

theorem touch_start_snaps:
  "mouse (handleTouchStart ((x, y) # rest) c) = (x, y)
   \<and> target (handleTouchStart ((x, y) # rest) c) = (x, y)
   \<and> map (\<lambda>b. (blob_x b, blob_y b)) (blobs (handleTouchStart ((x, y) # rest) c))
       = replicate (length (blobs c)) (x, y)
   \<and> isTouching (handleTouchStart ((x, y) # rest) c)
   \<and> isActive (handleTouchStart ((x, y) # rest) c)"
  by (simp add: handleTouchStart_def setBlobOpacity_def Let_def o_def map_replicate_const
      split: option.splits)

theorem touch_start_snaps_witness:
  "\<not> isTouching bc_touch
   \<and> mouse (handleTouchStart [(120, 300)] bc_touch) = (120, 300)
   \<and> target (handleTouchStart [(120, 300)] bc_touch) = (120, 300)
   \<and> map (\<lambda>b. (blob_x b, blob_y b)) (blobs (handleTouchStart [(120, 300)] bc_touch))
       = [(120, 300), (120, 300), (120, 300), (120, 300), (120, 300)]"
proof -
  have "length (blobs bc_touch) = 5"
    by (simp add: bc_touch_def length_blobs_new CONFIG_mobile_def)
  then have "replicate (length (blobs bc_touch)) (120::real, 300::real)
      = [(120, 300), (120, 300), (120, 300), (120, 300), (120, 300)]"
    by (simp add: numeral_eq_Suc)
  with touch_start_snaps [of 120 300 "[]" bc_touch] isTouching_new [of True 400 800 0 0 sched0]
  show ?thesis by (simp add: bc_touch_def)
qed

section \<open>Velocity\<close>

lemma updatePosition_fields:
  "velocity (updatePosition x y c)
     = ((x - fst (lastPosition c)) * velocityMultiplier, (y - snd (lastPosition c)) * velocityMultiplier)"
  "lastPosition (updatePosition x y c) = target c"
  "target (updatePosition x y c) = (x, y)"
  by (simp_all add: updatePosition_def Let_def)

lemma updatePosition_twice_velocity:
  "velocity (updatePosition x2 y2 (updatePosition x1 y1 c))
     = ((x2 - fst (target c)) * velocityMultiplier, (y2 - snd (target c)) * velocityMultiplier)"
  by (simp add: updatePosition_fields)

lemma velocity_blob_animate:
  "velocity (blob_animate t c) = (fst (velocity c) * 0.9, snd (velocity c) * 0.9)"
  by (simp add: blob_animate_def Let_def split_def)

lemma velocity_decay:
  "velocity (blob_ticks ts c)
     = (fst (velocity c) * 0.9 ^ length ts, snd (velocity c) * 0.9 ^ length ts)"
  by (induction ts arbitrary: c) (simp_all add: velocity_blob_animate)

lemma speed_decay:
  "sqrt ((fst (velocity (blob_ticks ts c)))\<^sup>2 + (snd (velocity (blob_ticks ts c)))\<^sup>2)
     = sqrt ((fst (velocity c))\<^sup>2 + (snd (velocity c))\<^sup>2) * 0.9 ^ length ts"
proof -
  have "(fst (velocity c) * 0.9 ^ length ts)\<^sup>2 + (snd (velocity c) * 0.9 ^ length ts)\<^sup>2
      = ((fst (velocity c))\<^sup>2 + (snd (velocity c))\<^sup>2) * (0.9 ^ length ts)\<^sup>2"
    by (simp add: power_mult_distrib algebra_simps)
  then show ?thesis
    by (simp add: velocity_decay real_sqrt_mult)
qed

text \<open>
  Claim C7 says that \<^verbatim>\<open>updatePosition\<close> sets the velocity to the difference between the new
  raw position and the one of the update just before, times the multiplier. On a cursor
  constructed in a 200 by 200 window (target and last position at 100), the updates to
  \<open>x = 110\<close> and then to \<open>x = 120\<close> leave the velocity \<open>24\<close>, the difference to the
  position two updates back, where the claim gives \<open>(120 - 110) * 1.2 = 12\<close>:
  \<^verbatim>\<open>lastPosition\<close> is assigned the target of before the update, not the position of the update.
  (The decay by \<open>0.9\<close> per tick holds, see \<open>velocity_decay\<close> and \<open>speed_decay\<close>.)
\<close>

theorem updatePosition_velocity_stale:
  "target (updatePosition 110 100 bc_desktop) = (110, 100)
   \<and> velocity (updatePosition 120 100 (updatePosition 110 100 bc_desktop)) = (24, 0)
   \<and> ((120 - 110) * velocityMultiplier, (100 - 100) * velocityMultiplier) = (12, 0)"
  by (simp add: updatePosition_fields bc_desktop_def new_BlobCursor_positions velocityMultiplier_def)

section \<open>Disposal\<close>

lemma remove_canvas_fields:
  assumes "remove_canvas w = Inr w'"
  shows "ls_renderer w' = ls_renderer w" and "ls_material w' = ls_material w"
    and "ls_mesh w' = ls_mesh w" and "ls_sched w' = ls_sched w"
    and "disposed w' = disposed w" and "resizeListener w' = resizeListener w"
    and "animationId w' = animationId w" and "container w' = container w"
    and "nextObject w' = nextObject w"
  using assms by (auto simp add: remove_canvas_def split: option.splits if_splits)

lemma remove_canvas_succeeds:
  "canvas_attached w \<Longrightarrow> \<exists>w'. remove_canvas w = Inr w'"
  by (auto simp add: remove_canvas_def canvas_attached_def split: option.splits)

lemma remove_canvas_no_renderer:
  "ls_renderer w = None \<Longrightarrow> remove_canvas w = Inr w"
  by (simp add: remove_canvas_def)

lemma dispose_stage_fields:
  "ls_renderer (dispose_material w) = ls_renderer w"
  "ls_mesh (dispose_material w) = ls_mesh w"
  "ls_sched (dispose_material w) = ls_sched w"
  "resizeListener (dispose_material w) = resizeListener w"
  "ls_renderer (dispose_mesh w) = ls_renderer w"
  "ls_sched (dispose_mesh w) = ls_sched w"
  "resizeListener (dispose_mesh w) = resizeListener w"
  "ls_sched (dispose_renderer w) = ls_sched w"
  "resizeListener (dispose_renderer w) = resizeListener w"
  by (simp_all add: dispose_material_def dispose_mesh_def dispose_renderer_def Let_def
      split: option.splits)

lemma dispose_stage_disposed:
  "disposed (dispose_material w)
     = disposed w \<union> (case ls_material w of
                          None \<Rightarrow> {}
                        | Some m \<Rightarrow> insert (mat_id m)
                                     (case tDiffuse m of None \<Rightarrow> {} | Some tex \<Rightarrow> {tex}))"
  "disposed (dispose_mesh w)
     = disposed w \<union> (case ls_mesh w of None \<Rightarrow> {} | Some ms \<Rightarrow> {geometry_id ms})"
  "disposed (dispose_renderer w)
     = disposed w \<union> (case ls_renderer w of None \<Rightarrow> {} | Some rd \<Rightarrow> {rd_id rd})"
  by (auto simp add: dispose_material_def dispose_mesh_def dispose_renderer_def Let_def
      split: option.splits)

lemma dispose_stage_none:
  "ls_material w = None \<Longrightarrow> dispose_material w = w"
  "ls_mesh w = None \<Longrightarrow> dispose_mesh w = w"
  "ls_renderer w = None \<Longrightarrow> dispose_renderer w = w"
  by (simp_all add: dispose_material_def dispose_mesh_def dispose_renderer_def)

lemma cancel_if_set_frames:
  "h \<noteq> 0 \<Longrightarrow> h \<notin> frames (cancel_if_set (Some h) sc)"
  by (simp add: cancel_if_set_def cancelAnimationFrame_def)

lemma cancel_if_set_twice:
  "cancel_if_set v (cancel_if_set v sc) = cancel_if_set v sc"
  by (simp add: cancel_if_set_def cancelAnimationFrame_def split: option.splits)

lemma loader_animate_attached:
  "loader_animate w = Inr w' \<Longrightarrow> canvas_attached w \<Longrightarrow> canvas_attached w'"
  by (auto simp add: loader_animate_def requestAnimationFrame_def Let_def canvas_attached_def
      split: option.splits if_splits)

lemma loader_onLoad_attached:
  "loader_onLoad w = Inr w' \<Longrightarrow> canvas_attached w \<Longrightarrow> canvas_attached w'"
  by (auto simp add: loader_onLoad_def loader_animate_def requestAnimationFrame_def Let_def
      canvas_attached_def split: option.splits if_splits)

lemma dispose_attached:
  "disposeLoaderScene w = Inr w' \<Longrightarrow> canvas_attached w'"
  by (auto simp add: disposeLoaderScene_def Let_def canvas_attached_def split: sum.splits)

lemma loader_reachable_attached: "loader_reachable w \<Longrightarrow> canvas_attached w"
proof (induction rule: loader_reachable.induct)
  case (module hasContainer sc)
  show ?case by (simp add: canvas_attached_def loader_module_def)
next
  case (initialised w iw ih dpr)
  then show ?case
    by (auto simp add: canvas_attached_def initLoaderScene_def Let_def split: option.splits)
next
  case (texture_loaded w w')
  then show ?case using loader_onLoad_attached by blast
next
  case (frame w w')
  then show ?case using loader_animate_attached by blast
next
  case (window_resized w iw ih)
  then show ?case
    by (auto simp add: canvas_attached_def onWindowResize_def split: option.splits if_splits)
next
  case (scene_disposed w w')
  then show ?case using dispose_attached by blast
qed

lemma dispose_succeeds:
  assumes "canvas_attached w"
  shows "\<exists>w1. disposeLoaderScene w = Inr w1"
proof -
  let ?w2 = "w\<lparr> ls_sched := cancel_if_set (animationId w) (ls_sched w), resizeListener := False \<rparr>"
  have "canvas_attached ?w2"
    using assms by (simp add: canvas_attached_def split: option.splits)
  then obtain w3 where "remove_canvas ?w2 = Inr w3"
    using remove_canvas_succeeds by blast
  then show ?thesis
    by (simp add: disposeLoaderScene_def Let_def)
qed

lemma dispose_effects:
  assumes "disposeLoaderScene w = Inr w1"
  shows "ls_sched w1 = cancel_if_set (animationId w) (ls_sched w)"
    and "animationId w1 = animationId w"
    and "owned w \<subseteq> disposed w1"
    and "\<not> resizeListener w1"
    and "ls_scene w1 = None" and "ls_camera w1 = None" and "ls_renderer w1 = None"
    and "ls_material w1 = None" and "ls_mesh w1 = None"
proof -
  let ?w2 = "w\<lparr> ls_sched := cancel_if_set (animationId w) (ls_sched w), resizeListener := False \<rparr>"
  obtain w3 where r: "remove_canvas ?w2 = Inr w3"
    and w1: "w1 = (dispose_renderer (dispose_mesh (dispose_material w3)))
                    \<lparr> ls_scene := None, ls_camera := None, ls_renderer := None,
                      ls_material := None, ls_mesh := None \<rparr>"
    using assms by (auto simp add: disposeLoaderScene_def Let_def split: sum.splits)
  note f = remove_canvas_fields [OF r]
  show "ls_sched w1 = cancel_if_set (animationId w) (ls_sched w)"
    by (simp add: w1 dispose_stage_fields f)
  show "animationId w1 = animationId w"
    using f(7)
    by (simp add: w1 dispose_material_def dispose_mesh_def dispose_renderer_def Let_def
        split: option.splits)
  show "owned w \<subseteq> disposed w1"
    using f(1,2,3)
    by (auto simp add: w1 owned_def dispose_stage_disposed dispose_stage_fields
        dispose_material_def Let_def split: option.splits)
  show "\<not> resizeListener w1"
    using f(6) by (simp add: w1 dispose_stage_fields)
  show "ls_scene w1 = None" "ls_camera w1 = None" "ls_renderer w1 = None"
    "ls_material w1 = None" "ls_mesh w1 = None"
    by (simp_all add: w1)
qed

lemma dispose_twice:
  assumes "disposeLoaderScene w = Inr w1"
  shows "disposeLoaderScene w1 = Inr w1"
proof -
  note e = dispose_effects [OF assms]
  let ?w2 = "w1\<lparr> ls_sched := cancel_if_set (animationId w1) (ls_sched w1),
                  resizeListener := False \<rparr>"
  have same: "?w2 = w1"
    using e(1,2,4) by (simp add: cancel_if_set_twice)
  have "remove_canvas w1 = Inr w1"
    using e(7) by (rule remove_canvas_no_renderer)
  moreover have "dispose_renderer (dispose_mesh (dispose_material w1)) = w1"
    using e(7,8,9) by (simp add: dispose_stage_none)
  moreover have "w1\<lparr> ls_scene := None, ls_camera := None, ls_renderer := None,
                      ls_material := None, ls_mesh := None \<rparr> = w1"
    using e(5-9) by simp
  ultimately show ?thesis
    using same by (simp add: disposeLoaderScene_def Let_def)
qed

lemma dispose_running: "disposeLoaderScene loader_running = Inr loader_disposed"
  by (simp add: disposeLoaderScene_def loader_running_def loader_disposed_def Let_def
      cancel_if_set_def cancelAnimationFrame_def remove_canvas_def dispose_material_def
      dispose_mesh_def dispose_renderer_def insert_commute)

lemma destroy_twice: "destroy (destroy c) = destroy c"
  by (cases "rafId c"; cases "touchHoldTimer c"; cases "fadeOutTimer c")
     (simp_all add: destroy_def Let_def cancel_if_set_def clear_if_set_def
        cancelAnimationFrame_def clearTimeout_def)

lemma destroy_effects:
  "rafId c = Some h \<Longrightarrow> h \<noteq> 0 \<Longrightarrow> h \<notin> frames (sched (destroy c))"
  "touchHoldTimer c = Some h \<Longrightarrow> h \<noteq> 0 \<Longrightarrow> h \<notin> timeouts (sched (destroy c))"
  "fadeOutTimer c = Some h \<Longrightarrow> h \<noteq> 0 \<Longrightarrow> h \<notin> timeouts (sched (destroy c))"
  "blobs (destroy c) = []"
  "blobGroup (destroy c) \<inter> set (map (\<lambda>b. el_id (blob_el b)) (blobs c)) = {}"
  by (cases "rafId c"; cases "touchHoldTimer c"; cases "fadeOutTimer c";
      auto simp add: destroy_def Let_def cancel_if_set_def clear_if_set_def
        cancelAnimationFrame_def clearTimeout_def)+

lemma disposeLoaderScene_idempotent:
  assumes "canvas_attached w"
  shows "\<exists>w1. disposeLoaderScene w = Inr w1
            \<and> (\<forall>h. animationId w = Some h \<and> h \<noteq> 0 \<longrightarrow> h \<notin> frames (ls_sched w1))
            \<and> owned w \<subseteq> disposed w1
            \<and> owned w1 = {}
            \<and> \<not> resizeListener w1
            \<and> disposeLoaderScene w1 = Inr w1"
proof -
  obtain w1 where d: "disposeLoaderScene w = Inr w1"
    using dispose_succeeds [OF assms] by blast
  note e = dispose_effects [OF d]
  have "\<forall>h. animationId w = Some h \<and> h \<noteq> 0 \<longrightarrow> h \<notin> frames (ls_sched w1)"
    using e(1) by (auto simp add: cancel_if_set_frames)
  moreover have "owned w1 = {}"
    using e(7,8,9) by (simp add: owned_def)
  ultimately show ?thesis
    using d e(3,4) dispose_twice [OF d] by blast
qed

lemma two_fingers_fields:
  "fadeOutTimer bc_two_fingers = None"
  "touchHoldTimer bc_two_fingers = None"
  "rafId bc_two_fingers = Some 1"
  "isActive bc_two_fingers"
  "sched bc_two_fingers = \<lparr> frames = {1}, timeouts = {}, nextHandle = 1 \<rparr>"
  by (simp_all add: bc_two_fingers_def bc_touch_def handleTouchStart_def
      new_BlobCursor_def blob_animate_def createBlobs_def setBlobOpacity_def Let_def split_def
      requestAnimationFrame_def sched0_def)

lemma one_end_fields:
  "fadeOutTimer (handleTouchEnd bc_two_fingers) = Some 2"
  "sched (handleTouchEnd bc_two_fingers) = \<lparr> frames = {1}, timeouts = {2}, nextHandle = 2 \<rparr>"
  by (simp_all add: handleTouchEnd_def setTimeout_def two_fingers_fields split_def)

lemma two_ends_fields:
  "fadeOutTimer bc_two_ends = Some 3"
  "touchHoldTimer bc_two_ends = None"
  "rafId bc_two_ends = Some 1"
  "isActive bc_two_ends"
  "sched bc_two_ends = \<lparr> frames = {1}, timeouts = {2, 3}, nextHandle = 3 \<rparr>"
  by (auto simp add: bc_two_ends_def handleTouchEnd_def setTimeout_def one_end_fields
      two_fingers_fields split_def)

lemma destroy_two_ends_fields:
  "sched (destroy bc_two_ends) = \<lparr> frames = {}, timeouts = {2}, nextHandle = 3 \<rparr>"
  "rafId (destroy bc_two_ends) = Some 1"
  "isActive (destroy bc_two_ends)"
  by (auto simp add: destroy_def Let_def two_ends_fields cancel_if_set_def clear_if_set_def
      cancelAnimationFrame_def clearTimeout_def)

text \<open>
  Claim C9 says that disposal cancels the pending frame, releases every handle the driver
  owns, and is idempotent. The loader scene does so (\<open>disposeLoaderScene_idempotent\<close>), and
  \<^verbatim>\<open>destroy\<close> of the blob cursor is idempotent (\<open>destroy_twice\<close>), but it does not release
  everything the cursor owns. With two fingers down and then lifted, each \<^verbatim>\<open>touchend\<close>
  starts a fade-out timer and \<^verbatim>\<open>handleTouchEnd\<close> overwrites \<^verbatim>\<open>fadeOutTimer\<close> without
  clearing the first one: the timers 2 and 3 are pending and the field holds 3. \<^verbatim>\<open>destroy\<close>
  clears timer 3 only; timer 2 stays pending, and its callback then changes \<^verbatim>\<open>isActive\<close> of
  the destroyed cursor. Nor does \<^verbatim>\<open>destroy\<close> remove any listener of \<^verbatim>\<open>bindEvents\<close>: after it,
  hiding and showing the tab runs \<^verbatim>\<open>handleVisibilityChange\<close>, which requests a frame again
  (handle 4) for the destroyed cursor.
\<close>

theorem destroy_leaves_timer_pending:
  "fadeOutTimer (handleTouchEnd bc_two_fingers) = Some 2
   \<and> timeouts (sched (handleTouchEnd bc_two_fingers)) = {2}
   \<and> fadeOutTimer bc_two_ends = Some 3
   \<and> timeouts (sched bc_two_ends) = {2, 3}
   \<and> timeouts (sched (destroy bc_two_ends)) = {2}
   \<and> isActive (destroy bc_two_ends)
   \<and> \<not> isActive (fadeOut_callback (destroy bc_two_ends))
   \<and> frames (sched (destroy bc_two_ends)) = {}
   \<and> frames (sched (handleVisibilityChange False 900
                        (handleVisibilityChange True 800 (destroy bc_two_ends)))) = {4}"
proof -
  have cb: "\<not> isActive (fadeOut_callback (destroy bc_two_ends))"
    by (simp add: fadeOut_callback_def setBlobOpacity_def)
  have hid: "sched (handleVisibilityChange True 800 (destroy bc_two_ends))
        = \<lparr> frames = {}, timeouts = {2}, nextHandle = 3 \<rparr>"
    "rafId (handleVisibilityChange True 800 (destroy bc_two_ends)) = None"
    by (simp_all add: handleVisibilityChange_def destroy_two_ends_fields cancelAnimationFrame_def)
  have "frames (sched (handleVisibilityChange False 900
                        (handleVisibilityChange True 800 (destroy bc_two_ends)))) = {4}"
    by (simp add: handleVisibilityChange_def [of False] hid blob_animate_def Let_def split_def
        requestAnimationFrame_def)
  then show ?thesis
    using cb one_end_fields two_ends_fields destroy_two_ends_fields by simp
qed

end
